theory Spec2Isabelle
  imports Main
begin

section \<open>Data model\<close>

text \<open>
  The four modules (\<^verbatim>\<open>os_project.py\<close>, \<^verbatim>\<open>os_user.py\<close>, \<^verbatim>\<open>os_role.py\<close>,
  \<^verbatim>\<open>os_router.py\<close>) reconcile projects, users, role assignments and routers of an
  OpenStack backend. Resources are dictionaries with fixed keys, modelled as records.
  A Python value that may be \<^verbatim>\<open>None\<close> is an option.
\<close>

record project =
  p_id :: string
  p_name :: string
  p_description :: "string option"
  p_enabled :: bool

record user =
  u_id :: string
  u_name :: string
  u_password :: "string option"
  u_email :: "string option"
  u_project :: "string option"
  u_enabled :: bool

record router =
  rt_id :: string
  rt_name :: string
  rt_admin_state_up :: bool

record role =
  ro_id :: string
  ro_name :: string

text \<open>Exceptions of the source are values; the first component of a result is a sum.\<close>

datatype exn =
    OpenStackCloudException string string
  | MultipleMatches string
  | KeyError string
  | ValueError string
  | NotImplementedError string
  | NameError string
  | AttributeError string

text \<open>
  Every call that crosses the boundary to the backend client, reads first, mutations
  after. The shade cloud object offers the \<^verbatim>\<open>get_/create_/update_/delete_\<close> operations,
  the keystone client the \<^verbatim>\<open>projects\<close>, \<^verbatim>\<open>users\<close> and \<^verbatim>\<open>roles\<close> managers.
\<close>

datatype call =
    Openstack_cloud
  | Get_project string
  | Get_user string
  | Get_router string
  | Users_list
  | Roles_list
  | Roles_for_user string "string option"
  | Create_project string "string option" bool
  | Update_project string "string option" bool
  | Delete_project string
  | Create_user string "string option" "string option" "string option" bool
  | Update_user string "string option" bool
  | Create_router string bool
  | Delete_router string
  | Users_create string "string option" "string option" string
  | Roles_create string
  | Add_user_role string string "string option"

fun is_mutation :: "call \<Rightarrow> bool" where
  "is_mutation Openstack_cloud = False"
| "is_mutation (Get_project n) = False"
| "is_mutation (Get_user n) = False"
| "is_mutation (Get_router n) = False"
| "is_mutation Users_list = False"
| "is_mutation Roles_list = False"
| "is_mutation (Roles_for_user u p) = False"
| "is_mutation (Create_project n d e) = True"
| "is_mutation (Update_project i d e) = True"
| "is_mutation (Delete_project i) = True"
| "is_mutation (Create_user n pw em pr e) = True"
| "is_mutation (Update_user i em e) = True"
| "is_mutation (Create_router n a) = True"
| "is_mutation (Delete_router n) = True"
| "is_mutation (Users_create n pw em pid) = True"
| "is_mutation (Roles_create n) = True"
| "is_mutation (Add_user_role u r p) = True"

text \<open>
  The backend: its resources, the grants (user id, project id, role), the counter ids
  are drawn from, the log of the calls received so far, and \<open>fault\<close>, which says on
  which calls the backend answers with an \<^verbatim>\<open>OpenStackCloudException\<close> (message and
  extra data).
\<close>

record backend =
  bk_projects :: "project list"
  bk_users :: "user list"
  bk_routers :: "router list"
  bk_roles :: "role list"
  bk_grants :: "(string \<times> string option \<times> role) list"
  next_id :: nat
  calls :: "call list"
  fault :: "call \<Rightarrow> (string \<times> string) option"

text \<open>What an observer of the backend can read back: everything but the call log.\<close>

definition observable ::
  "backend \<Rightarrow> project list \<times> user list \<times> router list \<times> role list \<times> (string \<times> string option \<times> role) list" where
  "observable b = (bk_projects b, bk_users b, bk_routers b, bk_roles b, bk_grants b)"

section \<open>Computations against the backend\<close>

type_synonym 'a io = "backend \<Rightarrow> (exn + 'a) \<times> backend"

definition return :: "'a \<Rightarrow> 'a io" where
  "return x = (\<lambda>b. (Inr x, b))"

definition throw :: "exn \<Rightarrow> 'a io" where
  "throw e = (\<lambda>b. (Inl e, b))"

definition bind :: "'a io \<Rightarrow> ('a \<Rightarrow> 'b io) \<Rightarrow> 'b io" where
  "bind m f = (\<lambda>b. case m b of (Inl e, b') \<Rightarrow> (Inl e, b') | (Inr x, b') \<Rightarrow> f x b')"

text \<open>\<^verbatim>\<open>try: m  except KeyError: h\<close>: only a \<^verbatim>\<open>KeyError\<close> is handled.\<close>

definition except_KeyError :: "'a io \<Rightarrow> 'a io \<Rightarrow> 'a io" where
  "except_KeyError m h =
     (\<lambda>b. case m b of (Inl (KeyError s), b') \<Rightarrow> h b' | r \<Rightarrow> r)"

text \<open>A name that no scope binds: evaluating it raises \<^verbatim>\<open>NameError\<close>.\<close>

definition unbound_name :: "string \<Rightarrow> 'a io" where
  "unbound_name n = throw (NameError n)"

text \<open>
  A backend call is logged, then either faults or runs.
\<close>

definition invoke :: "call \<Rightarrow> 'a io \<Rightarrow> 'a io" where
  "invoke c f =
     (\<lambda>b. let b1 = b\<lparr>calls := calls b @ [c]\<rparr> in
        case fault b c of
          Some (m, x) \<Rightarrow> (Inl (OpenStackCloudException m x), b1)
        | None \<Rightarrow> f b1)"

fun digit_char :: "nat \<Rightarrow> char" where
  "digit_char n = char_of (48 + n)"

fun str_nat :: "nat \<Rightarrow> string" where
  "str_nat n = (if n < 10 then [digit_char n] else str_nat (n div 10) @ [digit_char (n mod 10)])"

declare str_nat.simps [simp del]

section \<open>The backend client\<close>

text \<open>
  Modelled from the spec: the shade cloud object (\<^verbatim>\<open>cloud.get_project\<close>,
  \<^verbatim>\<open>cloud.create_project\<close>, ...) is not part of the repository. Section 4.1 gives the
  lookup: list the resources of the kind, keep those whose id or name equals
  \<^verbatim>\<open>name_or_id\<close>; exactly one is returned, none gives \<^verbatim>\<open>None\<close>, more than one fails
  with \<^verbatim>\<open>MultipleMatches\<close>.
\<close>

definition lookup :: "('r \<Rightarrow> string) \<Rightarrow> ('r \<Rightarrow> string) \<Rightarrow> 'r list \<Rightarrow> string \<Rightarrow> exn + 'r option" where
  "lookup idf namef xs name_or_id =
     (case filter (\<lambda>x. idf x = name_or_id \<or> namef x = name_or_id) xs of
        [] \<Rightarrow> Inr None
      | [x] \<Rightarrow> Inr (Some x)
      | _ \<Rightarrow> Inl (MultipleMatches name_or_id))"

text \<open>
  Modelled from the spec: section 6, \<^verbatim>\<open>get_<kind>(name_or_id) -> ObservedState | None\<close>,
  implemented by the lookup.
\<close>

definition cloud_get_project :: "string \<Rightarrow> project option io" where
  "cloud_get_project name_or_id =
     invoke (Get_project name_or_id)
       (\<lambda>b. (lookup p_id p_name (bk_projects b) name_or_id, b))"

definition cloud_get_user :: "string \<Rightarrow> user option io" where
  "cloud_get_user name_or_id =
     invoke (Get_user name_or_id)
       (\<lambda>b. (lookup u_id u_name (bk_users b) name_or_id, b))"

definition cloud_get_router :: "string \<Rightarrow> router option io" where
  "cloud_get_router name_or_id =
     invoke (Get_router name_or_id)
       (\<lambda>b. (lookup rt_id rt_name (bk_routers b) name_or_id, b))"

text \<open>
  Modelled from the spec: section 6, \<^verbatim>\<open>create_<kind>(attributes) -> ObservedState\<close>.
  The backend assigns the id, stores the attributes as given and returns the resource.
\<close>

definition cloud_create_project :: "string \<Rightarrow> string option \<Rightarrow> bool \<Rightarrow> project io" where
  "cloud_create_project name description enabled =
     invoke (Create_project name description enabled)
       (\<lambda>b. let p = \<lparr>p_id = str_nat (next_id b), p_name = name,
                      p_description = description, p_enabled = enabled\<rparr>
             in (Inr p, b\<lparr>bk_projects := bk_projects b @ [p], next_id := Suc (next_id b)\<rparr>))"

definition cloud_create_user ::
  "string \<Rightarrow> string option \<Rightarrow> string option \<Rightarrow> string option \<Rightarrow> bool \<Rightarrow> user io" where
  "cloud_create_user name password email proj enabled =
     invoke (Create_user name password email proj enabled)
       (\<lambda>b. let u = \<lparr>u_id = str_nat (next_id b), u_name = name,
                      u_password = password, u_email = email,
                      u_project = proj, u_enabled = enabled\<rparr>
             in (Inr u, b\<lparr>bk_users := bk_users b @ [u], next_id := Suc (next_id b)\<rparr>))"

definition cloud_create_router :: "string \<Rightarrow> bool \<Rightarrow> router io" where
  "cloud_create_router name admin_state_up =
     invoke (Create_router name admin_state_up)
       (\<lambda>b. let r = \<lparr>rt_id = str_nat (next_id b), rt_name = name,
                      rt_admin_state_up = admin_state_up\<rparr>
             in (Inr r, b\<lparr>bk_routers := bk_routers b @ [r], next_id := Suc (next_id b)\<rparr>))"

text \<open>
  Modelled from the spec: section 6, \<^verbatim>\<open>update_<kind>(id, attributes) -> ObservedState\<close>.
  Only the attributes passed are written; an id the backend does not know is a backend
  failure.
\<close>

definition cloud_update_project :: "string \<Rightarrow> string option \<Rightarrow> bool \<Rightarrow> project io" where
  "cloud_update_project ident description enabled =
     invoke (Update_project ident description enabled)
       (\<lambda>b. let ps = map (\<lambda>p. if p_id p = ident
                                then p\<lparr>p_description := description, p_enabled := enabled\<rparr>
                                else p) (bk_projects b)
             in case filter (\<lambda>p. p_id p = ident) ps of
                  [] \<Rightarrow> (Inl (OpenStackCloudException ''no such project'' ident), b)
                | p # _ \<Rightarrow> (Inr p, b\<lparr>bk_projects := ps\<rparr>))"

definition cloud_update_user :: "string \<Rightarrow> string option \<Rightarrow> bool \<Rightarrow> user io" where
  "cloud_update_user ident email enabled =
     invoke (Update_user ident email enabled)
       (\<lambda>b. let us = map (\<lambda>u. if u_id u = ident
                                then u\<lparr>u_email := email, u_enabled := enabled\<rparr>
                                else u) (bk_users b)
             in case filter (\<lambda>u. u_id u = ident) us of
                  [] \<Rightarrow> (Inl (OpenStackCloudException ''no such user'' ident), b)
                | u # _ \<Rightarrow> (Inr u, b\<lparr>bk_users := us\<rparr>))"

text \<open>
  Modelled from the spec: section 6, \<^verbatim>\<open>delete_<kind>(id) -> None\<close>. The resources
  with that id are removed.
\<close>

definition cloud_delete_project :: "string \<Rightarrow> unit io" where
  "cloud_delete_project ident =
     invoke (Delete_project ident)
       (\<lambda>b. (Inr (), b\<lparr>bk_projects := filter (\<lambda>p. p_id p \<noteq> ident) (bk_projects b)\<rparr>))"

definition cloud_delete_router :: "string \<Rightarrow> unit io" where
  "cloud_delete_router ident =
     invoke (Delete_router ident)
       (\<lambda>b. (Inr (), b\<lparr>bk_routers := filter (\<lambda>r. rt_id r \<noteq> ident) (bk_routers b)\<rparr>))"

text \<open>
  Modelled from the spec: \<^verbatim>\<open>shade.openstack_cloud(**module.params)\<close> opens the session;
  it mutates nothing and may fail like every other backend call.
\<close>

definition openstack_cloud :: "unit io" where
  "openstack_cloud = invoke Openstack_cloud (return ())"

text \<open>
  Modelled from the spec: the keystone client used by \<^verbatim>\<open>os_role.py\<close>.
  Section 6: \<^verbatim>\<open>list_<kind>()\<close>,
  \<^verbatim>\<open>list_role_assignments(user, project)\<close>, \<^verbatim>\<open>create_role(role_name)\<close>,
  \<^verbatim>\<open>assign_role(user, role, project)\<close>. A user created through the manager is enabled.
\<close>

definition keystone_users_list :: "user list io" where
  "keystone_users_list = invoke Users_list (\<lambda>b. (Inr (bk_users b), b))"

definition keystone_roles_list :: "role list io" where
  "keystone_roles_list = invoke Roles_list (\<lambda>b. (Inr (bk_roles b), b))"

definition held_roles :: "backend \<Rightarrow> user \<Rightarrow> project option \<Rightarrow> role list" where
  "held_roles b u p =
     map (\<lambda>g. snd (snd g))
       (filter (\<lambda>g. fst g = u_id u \<and> fst (snd g) = map_option p_id p) (bk_grants b))"

definition keystone_roles_for_user :: "user \<Rightarrow> project option \<Rightarrow> role list io" where
  "keystone_roles_for_user u p =
     invoke (Roles_for_user (u_id u) (map_option p_id p))
       (\<lambda>b. (Inr (held_roles b u p), b))"

definition keystone_users_create ::
  "string \<Rightarrow> string option \<Rightarrow> string option \<Rightarrow> string \<Rightarrow> user io" where
  "keystone_users_create name password email pid =
     invoke (Users_create name password email pid)
       (\<lambda>b. let u = \<lparr>u_id = str_nat (next_id b), u_name = name,
                      u_password = password, u_email = email,
                      u_project = Some pid, u_enabled = True\<rparr>
             in (Inr u, b\<lparr>bk_users := bk_users b @ [u], next_id := Suc (next_id b)\<rparr>))"

definition keystone_roles_create :: "string \<Rightarrow> role io" where
  "keystone_roles_create name =
     invoke (Roles_create name)
       (\<lambda>b. let r = \<lparr>ro_id = str_nat (next_id b), ro_name = name\<rparr>
             in (Inr r, b\<lparr>bk_roles := bk_roles b @ [r], next_id := Suc (next_id b)\<rparr>))"

definition keystone_add_user_role :: "user \<Rightarrow> role \<Rightarrow> project option \<Rightarrow> unit io" where
  "keystone_add_user_role u r p =
     invoke (Add_user_role (u_id u) (ro_id r) (map_option p_id p))
       (\<lambda>b. (Inr (), b\<lparr>bk_grants := bk_grants b @ [(u_id u, map_option p_id p, r)]\<rparr>))"

section \<open>os_project.py\<close>

text \<open>
  \<^verbatim>\<open>get_project(keystone, name_or_id)\<close> has no definition here: the condition of its
  comprehension, line 66, reads \<^verbatim>\<open>x.id = name_or_id or x.name == name_or_id\<close>, which
  is not Python, and nothing below is drawn from a reading of it.
\<close>

text \<open>\<^verbatim>\<open>ensure_project_exists(cloud, name, description, enabled, check_mode)\<close>.\<close>

definition ensure_project_exists ::
  "string \<Rightarrow> string option \<Rightarrow> bool \<Rightarrow> bool \<Rightarrow> (bool \<times> project option) io" where
  "ensure_project_exists name description enabled check_mode =
     bind (cloud_get_project name) (\<lambda>found.
       case found of
         Some project \<Rightarrow>
           if p_description project \<noteq> description \<or> p_enabled project \<noteq> enabled
           then if \<not> check_mode
                then bind (cloud_update_project (p_id project) description enabled)
                       (\<lambda>project. return (True, Some project))
                else return (True, Some project)
           else return (False, Some project)
       | None \<Rightarrow>
           if check_mode then return (True, None)
           else bind (cloud_create_project name description enabled)
                  (\<lambda>ks_project. return (True, Some ks_project)))"

text \<open>
  \<^verbatim>\<open>ensure_project_absent(cloud, name, check_mode)\<close>. Its first statement reads
  \<^verbatim>\<open>project_name\<close>, which neither the function nor the module binds (the parameter is
  \<^verbatim>\<open>name\<close>).
\<close>

definition ensure_project_absent :: "string \<Rightarrow> bool \<Rightarrow> bool io" where
  "ensure_project_absent name check_mode =
     bind (unbound_name ''project_name'') (\<lambda>project_name.
     bind (cloud_get_project project_name) (\<lambda>found.
       case found of
         None \<Rightarrow> return False
       | Some project \<Rightarrow>
           if check_mode then return True
           else bind (cloud_delete_project (p_id project)) (\<lambda>_. return True)))"

text \<open>
  What a module run ends in: \<^verbatim>\<open>exit_json(changed=..., <payload>)\<close>, the check-mode
  \<^verbatim>\<open>exit_json(changed=True, msg=..., extra_data=...)\<close>, \<^verbatim>\<open>fail_json(msg=..., ...)\<close>,
  or an exception no handler catches.
\<close>

datatype 'a exit =
    Exit_json bool 'a
  | Exit_json_msg bool string string
  | Fail_json string "string option"
  | Uncaught exn

datatype lifecycle = Present | Absent

text \<open>
  The \<^verbatim>\<open>try ... except shade.OpenStackCloudException as e\<close> of \<^verbatim>\<open>os_project.py\<close>,
  \<^verbatim>\<open>os_user.py\<close> and \<^verbatim>\<open>os_role.py\<close>: in check mode the failure is reported as a
  change, otherwise through \<^verbatim>\<open>fail_json\<close>. Every other exception passes.
\<close>

definition except_cloud_exception :: "bool \<Rightarrow> 'a exit io \<Rightarrow> backend \<Rightarrow> 'a exit \<times> backend" where
  "except_cloud_exception check_mode body =
     (\<lambda>b. case body b of
        (Inr out, b') \<Rightarrow> (out, b')
      | (Inl (OpenStackCloudException m x), b') \<Rightarrow>
          (if check_mode then Exit_json_msg True m x else Fail_json m (Some x), b')
      | (Inl e, b') \<Rightarrow> (Uncaught e, b'))"

text \<open>
  \<^verbatim>\<open>main\<close> of \<^verbatim>\<open>os_project.py\<close>: the block under \<^verbatim>\<open>try\<close>, then the whole.
  The payload is the \<^verbatim>\<open>project\<close> key of the report, absent (\<open>None\<close>) for state
  \<^verbatim>\<open>absent\<close>. \<^verbatim>\<open>state\<close> is restricted to its two choices by the argument
  specification.
\<close>

definition os_project_try ::
  "string \<Rightarrow> string option \<Rightarrow> lifecycle \<Rightarrow> bool \<Rightarrow> bool \<Rightarrow> project option option exit io" where
  "os_project_try proj description state enabled check_mode =
     bind openstack_cloud (\<lambda>_.
       case state of
         Present \<Rightarrow>
           bind (ensure_project_exists proj description enabled check_mode)
             (\<lambda>(changed, project_obj). return (Exit_json changed (Some project_obj)))
       | Absent \<Rightarrow>
           bind (ensure_project_absent proj check_mode)
             (\<lambda>changed. return (Exit_json changed None)))"

definition os_project_main ::
  "string \<Rightarrow> string option \<Rightarrow> lifecycle \<Rightarrow> bool \<Rightarrow> bool \<Rightarrow> backend
     \<Rightarrow> project option option exit \<times> backend" where
  "os_project_main proj description state enabled check_mode =
     except_cloud_exception check_mode
       (os_project_try proj description state enabled check_mode)"

section \<open>os_user.py\<close>

text \<open>
  \<^verbatim>\<open>ensure_user_exists(cloud, name, password, email, project, enabled, check_mode)\<close>.
  Line 85 joins the two comparisons with \<^verbatim>\<open>&&\<close>, which is not Python; the
  definition reads it as \<^verbatim>\<open>and\<close>. Only statements about the calls a run may
  issue are drawn from it, none about the result of the comparison.
\<close>

definition ensure_user_exists ::
  "string \<Rightarrow> string option \<Rightarrow> string option \<Rightarrow> string option \<Rightarrow> bool \<Rightarrow> bool
     \<Rightarrow> (bool \<times> user option) io" where
  "ensure_user_exists name password email proj enabled check_mode =
     bind (cloud_get_user name) (\<lambda>found.
       case found of
         Some user \<Rightarrow>
           if u_enabled user = enabled \<and> u_email user = email
           then return (False, Some user)
           else if check_mode then return (True, Some user)
           else bind (cloud_update_user (u_id user) email enabled)
                  (\<lambda>user. return (True, Some user))
       | None \<Rightarrow>
           if check_mode then return (True, None)
           else bind (cloud_create_user name password email proj enabled)
                  (\<lambda>user. return (True, Some user)))"

text \<open>
  \<^verbatim>\<open>ensure_user_absent(cloud, name_or_id, check_mode)\<close>: the call issued on the
  user's id is \<^verbatim>\<open>cloud.delete_project\<close>.
\<close>

definition ensure_user_absent :: "string \<Rightarrow> bool \<Rightarrow> bool io" where
  "ensure_user_absent name_or_id check_mode =
     bind (cloud_get_user name_or_id) (\<lambda>found.
       case found of
         None \<Rightarrow> return False
       | Some user \<Rightarrow>
           if check_mode then return True
           else bind (cloud_delete_project (u_id user)) (\<lambda>_. return True))"

text \<open>
  \<^verbatim>\<open>main\<close> of \<^verbatim>\<open>os_user.py\<close>. For state \<^verbatim>\<open>present\<close> it calls
  \<^verbatim>\<open>ensure_user_present\<close>, a name the module does not define.
\<close>

definition os_user_try ::
  "string \<Rightarrow> string option \<Rightarrow> string option \<Rightarrow> string option \<Rightarrow> lifecycle \<Rightarrow> bool \<Rightarrow> bool
     \<Rightarrow> user option option exit io" where
  "os_user_try name password proj email state enabled check_mode =
     bind openstack_cloud (\<lambda>_.
       case state of
         Present \<Rightarrow>
           bind (unbound_name ''ensure_user_present'')
             (\<lambda>(ensure_user_present :: (bool \<times> user option) io).
                bind ensure_user_present
                  (\<lambda>(changed, user_obj). return (Exit_json changed (Some user_obj))))
       | Absent \<Rightarrow>
           bind (ensure_user_absent name check_mode)
             (\<lambda>changed. return (Exit_json changed None)))"

definition os_user_main ::
  "string \<Rightarrow> string option \<Rightarrow> string option \<Rightarrow> string option \<Rightarrow> lifecycle \<Rightarrow> bool \<Rightarrow> bool
     \<Rightarrow> backend \<Rightarrow> user option option exit \<times> backend" where
  "os_user_main name password proj email state enabled check_mode =
     except_cloud_exception check_mode
       (os_user_try name password proj email state enabled check_mode)"

section \<open>os_router.py\<close>

text \<open>
  \<^verbatim>\<open>main\<close> of \<^verbatim>\<open>os_router.py\<close>: the block under \<^verbatim>\<open>try\<close>, then the whole
  with its handler. The payload is the \<^verbatim>\<open>result\<close> text and the
  \<^verbatim>\<open>id\<close> key when there is one. The module never reads \<^verbatim>\<open>module.check_mode\<close>; the
  flag is a parameter here so that a run in check mode can be stated. The handler calls
  \<^verbatim>\<open>fail_json(msg=e.message)\<close> in every mode.
\<close>

definition os_router_try ::
  "string \<Rightarrow> bool \<Rightarrow> lifecycle \<Rightarrow> (string \<times> string option) exit io" where
  "os_router_try name admin_state_up state =
     bind openstack_cloud (\<lambda>_.
     bind (cloud_get_router name) (\<lambda>found.
       case state of
         Present \<Rightarrow>
           (case found of
              None \<Rightarrow>
                bind (cloud_create_router name admin_state_up) (\<lambda>router.
                  return (Exit_json True (''Created'', Some (rt_id router))))
            | Some router \<Rightarrow>
                return (Exit_json False (''Success'', Some (rt_id router))))
       | Absent \<Rightarrow>
           (case found of
              None \<Rightarrow> return (Exit_json False (''Success'', None))
            | Some router \<Rightarrow>
                bind (cloud_delete_router name) (\<lambda>_.
                  return (Exit_json True (''Deleted'', None))))))"

definition os_router_main ::
  "string \<Rightarrow> bool \<Rightarrow> lifecycle \<Rightarrow> bool \<Rightarrow> backend \<Rightarrow> (string \<times> string option) exit \<times> backend" where
  "os_router_main name admin_state_up state check_mode =
     (\<lambda>b. case os_router_try name admin_state_up state b of
        (Inr out, b') \<Rightarrow> (out, b')
      | (Inl (OpenStackCloudException m x), b') \<Rightarrow> (Fail_json m None, b')
      | (Inl e, b') \<Rightarrow> (Uncaught e, b'))"

section \<open>os_role.py\<close>

text \<open>\<^verbatim>\<open>get_user(keystone, name)\<close> and \<^verbatim>\<open>get_role(keystone, name)\<close>.\<close>

definition get_user :: "string \<Rightarrow> user io" where
  "get_user name =
     bind keystone_users_list (\<lambda>listing.
       let users = filter (\<lambda>x. u_name x = name) listing;
           count = length users
       in if count = 0 then throw (KeyError (''No keystone users with name '' @ name))
          else if count > 1 then throw (ValueError (str_nat count @ '' users with name '' @ name))
          else return (hd users))"

definition get_role :: "string \<Rightarrow> role io" where
  "get_role name =
     bind keystone_roles_list (\<lambda>listing.
       let roles = filter (\<lambda>x. ro_name x = name) listing;
           count = length roles
       in if count = 0 then throw (KeyError (''No keystone roles with name '' @ name))
          else if count > 1 then throw (ValueError (str_nat count @ '' roles with name '' @ name))
          else return (hd roles))"

text \<open>
  \<^verbatim>\<open>os_role.py\<close> calls \<^verbatim>\<open>get_project\<close> (lines 94, 123 and 141) and neither
  defines nor imports it: reading the name raises \<^verbatim>\<open>NameError\<close>, and what follows
  the call in the source is never reached. Reading \<^verbatim>\<open>.id\<close> of \<^verbatim>\<open>None\<close> would
  raise \<^verbatim>\<open>AttributeError\<close>.
\<close>

definition attr_id :: "project option \<Rightarrow> string io" where
  "attr_id p = (case p of None \<Rightarrow> throw (AttributeError ''id'') | Some x \<Rightarrow> return (p_id x))"

text \<open>
  \<^verbatim>\<open>ensure_user_exists(keystone, user_name, password, email, project_name, check_mode)\<close>
  of \<^verbatim>\<open>os_role.py\<close>.
\<close>

definition os_role_ensure_user_exists ::
  "string \<Rightarrow> string option \<Rightarrow> string option \<Rightarrow> string \<Rightarrow> bool \<Rightarrow> (bool \<times> string option) io" where
  "os_role_ensure_user_exists user_name password email project_name check_mode =
     except_KeyError
       (bind (get_user user_name) (\<lambda>user. return (False, Some (u_id user))))
       (if check_mode then return (True, None)
        else bind (unbound_name ''get_project'')
               (\<lambda>(get_project :: string \<Rightarrow> project option io).
             bind (get_project project_name) (\<lambda>project.
             bind (attr_id project) (\<lambda>pid.
             bind (keystone_users_create user_name password email pid) (\<lambda>user.
               return (True, Some (u_id user)))))))"

text \<open>\<^verbatim>\<open>ensure_role_exists(keystone, user_name, project_name, role_name, check_mode)\<close>.\<close>

definition ensure_role_exists ::
  "string \<Rightarrow> string \<Rightarrow> string \<Rightarrow> bool \<Rightarrow> (bool \<times> string option) io" where
  "ensure_role_exists user_name project_name role_name check_mode =
     bind (get_user user_name) (\<lambda>user.
     bind (unbound_name ''get_project'') (\<lambda>(get_project :: string \<Rightarrow> project option io).
     bind (get_project project_name) (\<lambda>project.
     bind (keystone_roles_for_user user project) (\<lambda>held.
       let roles = filter (\<lambda>x. ro_name x = role_name) held;
           count = length roles
       in if count = 1 then return (False, Some (ro_id (hd roles)))
          else if count > 1
          then throw (ValueError (str_nat count @ '' roles with name '' @ role_name))
          else if check_mode then return (True, None)
          else bind (except_KeyError (get_role role_name) (keystone_roles_create role_name))
                 (\<lambda>role.
               bind (keystone_add_user_role user role project) (\<lambda>_.
                 return (True, Some (ro_id role))))))))"

definition os_role_ensure_user_absent :: "string \<Rightarrow> bool \<Rightarrow> bool io" where
  "os_role_ensure_user_absent user check_mode = throw (NotImplementedError ''Not yet implemented'')"

definition ensure_role_absent :: "string \<Rightarrow> string \<Rightarrow> string \<Rightarrow> bool \<Rightarrow> bool io" where
  "ensure_role_absent uesr proj role check_mode = throw (NotImplementedError ''Not yet implemented'')"

text \<open>Truth value of an optional string argument: \<^verbatim>\<open>None\<close> and \<^verbatim>\<open>""\<close> are false.\<close>

fun truthy :: "string option \<Rightarrow> bool" where
  "truthy None = False"
| "truthy (Some s) = (s \<noteq> [])"

text \<open>
  \<^verbatim>\<open>dispatch\<close> of \<^verbatim>\<open>os_role.py\<close>; it returns \<^verbatim>\<open>dict(changed=changed, id=id)\<close>.
  \<^verbatim>\<open>os_role.py\<close> defines neither \<^verbatim>\<open>ensure_project_exists\<close> nor
  \<^verbatim>\<open>ensure_project_absent\<close>, and calls the first with four arguments where
  \<^verbatim>\<open>os_project.py\<close> declares five: the two are parameters, under the signatures
  \<^verbatim>\<open>dispatch\<close> calls them with. The arguments \<^verbatim>\<open>endpoint\<close>, \<^verbatim>\<open>token\<close>,
  \<^verbatim>\<open>login_user\<close> and \<^verbatim>\<open>login_password\<close> are never read.
\<close>

definition dispatch ::
  "(string \<Rightarrow> string option \<Rightarrow> bool \<Rightarrow> (bool \<times> string option) io)
     \<Rightarrow> (string \<Rightarrow> bool \<Rightarrow> bool io)
     \<Rightarrow> string option \<Rightarrow> string option \<Rightarrow> string option \<Rightarrow> string option \<Rightarrow> string option
     \<Rightarrow> string option \<Rightarrow> string \<Rightarrow> bool \<Rightarrow> (bool \<times> string option) io" where
  "dispatch project_exists project_absent user password proj project_description email
       role state check_mode =
     (if truthy proj \<and> \<not> truthy user \<and> \<not> truthy role \<and> state = ''present''
      then project_exists (the proj) project_description check_mode
      else if truthy proj \<and> \<not> truthy user \<and> \<not> truthy role \<and> state = ''absent''
      then bind (project_absent (the proj) check_mode) (\<lambda>changed. return (changed, None))
      else if truthy proj \<and> truthy user \<and> \<not> truthy role \<and> state = ''present''
      then os_role_ensure_user_exists (the user) password email (the proj) check_mode
      else if truthy proj \<and> truthy user \<and> \<not> truthy role \<and> state = ''absent''
      then bind (os_role_ensure_user_absent (the user) check_mode) (\<lambda>changed. return (changed, None))
      else if truthy proj \<and> truthy user \<and> truthy role \<and> state = ''present''
      then ensure_role_exists (the user) (the proj) (the role) check_mode
      else if truthy proj \<and> truthy user \<and> truthy role \<and> state = ''absent''
      then bind (ensure_role_absent (the user) (the proj) (the role) check_mode)
             (\<lambda>changed. return (changed, None))
      else throw (ValueError ''Code should never reach here''))"

text \<open>
  \<^verbatim>\<open>main\<close> of \<^verbatim>\<open>os_role.py\<close>: the guarded block only opens the session; the
  \<^verbatim>\<open>else\<close> branch then reads \<^verbatim>\<open>d\<close>, which nothing binds.
\<close>

definition os_role_try :: "unit exit io" where
  "os_role_try = bind openstack_cloud (\<lambda>_. unbound_name ''d'')"

definition os_role_main :: "bool \<Rightarrow> backend \<Rightarrow> unit exit \<times> backend" where
  "os_role_main check_mode = except_cloud_exception check_mode os_role_try"

section \<open>Vocabulary of the statements\<close>

text \<open>A backend without resources that never faults.\<close>

definition empty_backend :: backend where
  "empty_backend =
     \<lparr>bk_projects = [], bk_users = [], bk_routers = [], bk_roles = [], bk_grants = [],
      next_id = 0, calls = [], fault = (\<lambda>_. None)\<rparr>"

text \<open>The calls a run issued: what it appended to the log.\<close>

definition issued :: "backend \<Rightarrow> backend \<Rightarrow> call list" where
  "issued b b' = drop (length (calls b)) (calls b')"

text \<open>A run left the backend as it was: same resources, no mutating call issued.\<close>

definition unchanged :: "backend \<Rightarrow> backend \<Rightarrow> bool" where
  "unchanged b b' = (observable b' = observable b \<and> filter is_mutation (issued b b') = [])"

fun is_lookup :: "call \<Rightarrow> bool" where
  "is_lookup (Get_project n) = True"
| "is_lookup (Get_user n) = True"
| "is_lookup (Get_router n) = True"
| "is_lookup Users_list = True"
| "is_lookup Roles_list = True"
| "is_lookup (Roles_for_user u p) = True"
| "is_lookup c = False"

text \<open>No mutating call before the first lookup.\<close>

fun lookup_precedes :: "call list \<Rightarrow> bool" where
  "lookup_precedes [] = True"
| "lookup_precedes (c # cs) = (if is_lookup c then True else \<not> is_mutation c \<and> lookup_precedes cs)"

text \<open>
  The table in the docstring of \<^verbatim>\<open>dispatch\<close> (the same six rows as section 4.3):
  which of project, user and role are given, and the state.
\<close>

definition precedence_table :: "(bool \<times> bool \<times> bool \<times> string) list" where
  "precedence_table =
     [(True, False, False, ''present''), (True, False, False, ''absent''),
      (True, True, False, ''present''), (True, True, False, ''absent''),
      (True, True, True, ''present''), (True, True, True, ''absent'')]"

definition in_table :: "string option \<Rightarrow> string option \<Rightarrow> string option \<Rightarrow> string \<Rightarrow> bool" where
  "in_table proj user role state =
     ((truthy proj, truthy user, truthy role, state) \<in> set precedence_table)"

text \<open>
  A postcondition \<open>Q\<close> on the result and the final backend holds of the run of \<open>m\<close>
  from \<open>b\<close>.
\<close>

definition wp :: "'a io \<Rightarrow> ((exn + 'a) \<Rightarrow> backend \<Rightarrow> bool) \<Rightarrow> backend \<Rightarrow> bool" where
  "wp m Q b = Q (fst (m b)) (snd (m b))"

text \<open>The router of the scenario in section 8.\<close>

definition router1 :: router where
  "router1 = \<lparr>rt_id = ''7'', rt_name = ''router1'', rt_admin_state_up = False\<rparr>"

text \<open>A user and a project, for the examples.\<close>

definition john :: user where
  "john = \<lparr>u_id = ''u1'', u_name = ''john'', u_password = Some ''secrete'', u_email = None,
           u_project = Some ''demo'', u_enabled = True\<rparr>"

definition demo1 :: project where
  "demo1 = \<lparr>p_id = ''p1'', p_name = ''demo'', p_description = None, p_enabled = True\<rparr>"

text \<open>
  Two roles of the same name, both granted to \<^verbatim>\<open>john\<close> in the project
  \<^verbatim>\<open>demo\<close>.
\<close>

definition admin1 :: role where
  "admin1 = \<lparr>ro_id = ''r1'', ro_name = ''admin''\<rparr>"
definition admin2 :: role where
  "admin2 = \<lparr>ro_id = ''r2'', ro_name = ''admin''\<rparr>"

definition ambiguous_backend :: backend where
  "ambiguous_backend = empty_backend\<lparr>bk_projects := [demo1], bk_users := [john],
     bk_roles := [admin1, admin2],
     bk_grants := [(''u1'', Some ''p1'', admin1), (''u1'', Some ''p1'', admin2)]\<rparr>"

text \<open>
  The order of the calls of one run: no mutating call before the first lookup, and at
  most one mutating call.
\<close>

definition one_mutation :: "call list \<Rightarrow> bool" where
  "one_mutation cs = (lookup_precedes cs \<and> length (filter is_mutation cs) \<le> 1)"

text \<open>A backend with the user \<^verbatim>\<open>john\<close> and the project \<^verbatim>\<open>demo\<close>, without roles.\<close>

definition role_backend :: backend where
  "role_backend = empty_backend\<lparr>bk_projects := [demo1], bk_users := [john]\<rparr>"

text \<open>
  Two patterns of failure: a backend that fails every call, and one that fails the
  lookup of the project \<^verbatim>\<open>demo\<close> only.
\<close>

definition down :: "call \<Rightarrow> (string \<times> string) option" where
  "down c = Some (''Service Unavailable'', ''503'')"

definition flaky :: "call \<Rightarrow> (string \<times> string) option" where
  "flaky c = (if c = Get_project ''demo'' then Some (''Service Unavailable'', ''503'') else None)"

text \<open>
  The failure the backend answered the last call of a run with, if it did: after a
  failed call a run issues no other.
\<close>

definition reported :: "backend \<Rightarrow> backend \<Rightarrow> (string \<times> string) option" where
  "reported b b' = (case issued b b' of [] \<Rightarrow> None | cs \<Rightarrow> fault b (last cs))"

section \<open>Running a computation step by step\<close>

lemma fst_return: "fst (return x b) = Inr x"
  by (simp add: return_def)

lemma snd_return: "snd (return x b) = b"
  by (simp add: return_def)

lemma wp_return: "wp (return x) Q b = Q (Inr x) b"
  by (simp add: wp_def return_def)

lemma wp_throw: "wp (throw e) Q b = Q (Inl e) b"
  by (simp add: wp_def throw_def)

lemma wp_unbound_name: "wp (unbound_name n) Q b = Q (Inl (NameError n)) b"
  by (simp add: wp_def throw_def unbound_name_def)

lemma wp_bind:
  "wp (bind m f) Q b = wp m (\<lambda>r b'. case r of Inl e \<Rightarrow> Q (Inl e) b' | Inr x \<Rightarrow> wp (f x) Q b') b"
  by (simp add: wp_def bind_def split: prod.splits sum.splits)

lemma wp_except_KeyError:
  "wp (except_KeyError m h) Q b =
     wp m (\<lambda>r b'. case r of Inl (KeyError s) \<Rightarrow> wp h Q b' | _ \<Rightarrow> Q r b') b"
  by (simp add: wp_def except_KeyError_def split: prod.splits sum.splits exn.splits)

lemma wp_invoke:
  "wp (invoke c f) Q b =
     (case fault b c of
        Some (m, x) \<Rightarrow> Q (Inl (OpenStackCloudException m x)) (b\<lparr>calls := calls b @ [c]\<rparr>)
      | None \<Rightarrow> Q (fst (f (b\<lparr>calls := calls b @ [c]\<rparr>))) (snd (f (b\<lparr>calls := calls b @ [c]\<rparr>))))"
  by (simp add: wp_def invoke_def Let_def split: option.splits prod.splits)

lemma wpD: "wp m Q b \<Longrightarrow> Q (fst (m b)) (snd (m b))"
  by (simp add: wp_def)

lemma snd_except_cloud_exception: "snd (except_cloud_exception cm body b) = snd (body b)"
  by (simp add: except_cloud_exception_def split: prod.splits sum.splits exn.splits)

lemma str_nat_0: "str_nat 0 = ''0''"
  by code_simp

lemma str_nat_2: "str_nat (Suc (Suc 0)) = ''2''"
  by code_simp

lemmas wp_rules = fst_return snd_return wp_return wp_throw wp_unbound_name wp_bind
  wp_except_KeyError wp_invoke

lemmas cloud_defs = openstack_cloud_def cloud_get_project_def cloud_get_user_def
  cloud_get_router_def cloud_create_project_def cloud_create_user_def cloud_create_router_def
  cloud_update_project_def cloud_update_user_def cloud_delete_project_def cloud_delete_router_def

lemmas keystone_defs = keystone_users_list_def keystone_roles_list_def
  keystone_roles_for_user_def keystone_users_create_def keystone_roles_create_def
  keystone_add_user_role_def

lemmas frame_defs = unchanged_def observable_def issued_def

section \<open>Dispatch\<close>

text \<open>
  C5. With project, user and role all given and state \<^verbatim>\<open>present\<close>, \<^verbatim>\<open>dispatch\<close> is
  \<^verbatim>\<open>ensure_role_exists\<close> on these arguments, whatever the project functions are; every
  combination outside the six rows of the table raises
  \<^verbatim>\<open>ValueError("Code should never reach here")\<close> and leaves the backend, its call log
  included, as it was.
\<close>

theorem dispatch_routes:
  "(truthy proj \<and> truthy user \<and> truthy role \<and> state = ''present'' \<longrightarrow>
      dispatch pe pa user password proj project_description email role state check_mode
        = ensure_role_exists (the user) (the proj) (the role) check_mode)
   \<and> (\<not> in_table proj user role state \<longrightarrow>
      dispatch pe pa user password proj project_description email role state check_mode b
        = (Inl (ValueError ''Code should never reach here''), b))"
  by (auto simp: dispatch_def in_table_def precedence_table_def throw_def)

theorem dispatch_routes_witness:
  "truthy (Some ''demo'') \<and> truthy (Some ''john'') \<and> truthy (Some ''admin'')
   \<and> dispatch (\<lambda>n d c. unbound_name ''ensure_project_exists'')
        (\<lambda>n c. unbound_name ''ensure_project_absent'')
        (Some ''john'') None (Some ''demo'') None None (Some ''admin'') ''present'' False
        = ensure_role_exists ''john'' ''demo'' ''admin'' False
   \<and> \<not> in_table None (Some ''john'') None ''present''
   \<and> dispatch (\<lambda>n d c. unbound_name ''ensure_project_exists'')
        (\<lambda>n c. unbound_name ''ensure_project_absent'')
        (Some ''john'') None None None None None ''present'' False empty_backend
        = (Inl (ValueError ''Code should never reach here''), empty_backend)"
  using dispatch_routes [of "Some ''demo''" "Some ''john''" "Some ''admin''" "''present''"
          "\<lambda>n d c. unbound_name ''ensure_project_exists''"
          "\<lambda>n c. unbound_name ''ensure_project_absent''" None None None False empty_backend]
        dispatch_routes [of None "Some ''john''" None "''present''"
          "\<lambda>n d c. unbound_name ''ensure_project_exists''"
          "\<lambda>n c. unbound_name ''ensure_project_absent''" None None None False empty_backend]
  by (simp add: in_table_def precedence_table_def)

section \<open>Check mode\<close>

lemma frame_project_exists:
  "wp (ensure_project_exists name description enabled True) (\<lambda>r b'. unchanged b b') b"
  by (simp add: ensure_project_exists_def wp_rules cloud_defs frame_defs
        split: option.splits sum.splits)

lemma frame_project_absent:
  "wp (ensure_project_absent name True) (\<lambda>r b'. unchanged b b') b"
  by (simp add: ensure_project_absent_def wp_rules cloud_defs frame_defs
        split: option.splits sum.splits)

lemma frame_user_exists:
  "wp (ensure_user_exists name password email proj enabled True) (\<lambda>r b'. unchanged b b') b"
  by (simp add: ensure_user_exists_def wp_rules cloud_defs frame_defs
        split: option.splits sum.splits)

lemma frame_user_absent:
  "wp (ensure_user_absent name True) (\<lambda>r b'. unchanged b b') b"
  by (simp add: ensure_user_absent_def wp_rules cloud_defs frame_defs
        split: option.splits sum.splits)

lemma frame_os_role_user_exists:
  "wp (os_role_ensure_user_exists name password email pname True) (\<lambda>r b'. unchanged b b') b"
  by (simp add: os_role_ensure_user_exists_def get_user_def wp_rules keystone_defs frame_defs
        Let_def split: option.splits sum.splits exn.splits)

lemma frame_role_exists:
  "wp (ensure_role_exists name pname rname True) (\<lambda>r b'. unchanged b b') b"
  by (simp add: ensure_role_exists_def get_user_def wp_rules keystone_defs
        frame_defs Let_def split: option.splits sum.splits exn.splits)

lemma frame_os_project_main:
  "unchanged b (snd (os_project_main proj description state enabled True b))"
proof -
  have "wp (os_project_try proj description state enabled True) (\<lambda>r b'. unchanged b b') b"
    by (simp add: os_project_try_def ensure_project_exists_def ensure_project_absent_def
          wp_rules cloud_defs frame_defs split: option.splits sum.splits lifecycle.splits)
  then show ?thesis
    by (simp add: os_project_main_def snd_except_cloud_exception wp_def)
qed

lemma frame_os_user_main:
  "unchanged b (snd (os_user_main name password uproj email state enabled True b))"
proof -
  have "wp (os_user_try name password uproj email state enabled True) (\<lambda>r b'. unchanged b b') b"
    by (simp add: os_user_try_def ensure_user_absent_def wp_rules cloud_defs frame_defs
          split: option.splits sum.splits lifecycle.splits)
  then show ?thesis
    by (simp add: os_user_main_def snd_except_cloud_exception wp_def)
qed

lemma frame_os_role_main: "unchanged b (snd (os_role_main True b))"
proof -
  have "wp os_role_try (\<lambda>r b'. unchanged b b') b"
    by (simp add: os_role_try_def wp_rules cloud_defs frame_defs split: option.splits)
  then show ?thesis
    by (simp add: os_role_main_def snd_except_cloud_exception wp_def)
qed

text \<open>
  C1, as the claim states it, fails for the router: \<^verbatim>\<open>os_router.py\<close> never reads
  \<^verbatim>\<open>module.check_mode\<close>. Run in check mode against a backend without routers, state
  \<^verbatim>\<open>present\<close>, it issues \<^verbatim>\<open>create_router\<close> and the backend holds a router
  afterwards.
\<close>

theorem router_check_mode_counterexample:
  "fst (os_router_main ''router1'' True Present True empty_backend)
     = Exit_json True (''Created'', Some ''0'')
   \<and> bk_routers empty_backend = []
   \<and> bk_routers (snd (os_router_main ''router1'' True Present True empty_backend))
       = [\<lparr>rt_id = ''0'', rt_name = ''router1'', rt_admin_state_up = True\<rparr>]
   \<and> calls (snd (os_router_main ''router1'' True Present True empty_backend))
       = [Openstack_cloud, Get_router ''router1'', Create_router ''router1'' True]"
  by (simp add: os_router_main_def os_router_try_def empty_backend_def bind_def invoke_def return_def cloud_defs
        lookup_def Let_def str_nat_0)

text \<open>
  C1, amended. For projects, users and role assignments: with \<^verbatim>\<open>check_mode\<close> true,
  every convergence function of \<^verbatim>\<open>os_project.py\<close>, \<^verbatim>\<open>os_user.py\<close> and
  \<^verbatim>\<open>os_role.py\<close>, and every \<^verbatim>\<open>main\<close> of these modules, leaves the resources of
  the backend as they were and issues no mutating call, for every input, every state of
  the backend and every pattern of backend failures.
\<close>

theorem check_mode_unchanged:
  "unchanged b (snd (ensure_project_exists name description enabled True b))
   \<and> unchanged b (snd (ensure_project_absent name True b))
   \<and> unchanged b (snd (ensure_user_exists name password email proj enabled True b))
   \<and> unchanged b (snd (ensure_user_absent name True b))
   \<and> unchanged b (snd (os_role_ensure_user_exists name password email pname True b))
   \<and> unchanged b (snd (os_role_ensure_user_absent name True b))
   \<and> unchanged b (snd (ensure_role_exists name pname rname True b))
   \<and> unchanged b (snd (ensure_role_absent name pname rname True b))
   \<and> unchanged b (snd (os_project_main name description state enabled True b))
   \<and> unchanged b (snd (os_user_main name password proj email state enabled True b))
   \<and> unchanged b (snd (os_role_main True b))"
  using frame_project_exists [THEN wpD] frame_project_absent [THEN wpD]
    frame_user_exists [THEN wpD] frame_user_absent [THEN wpD]
    frame_os_role_user_exists [THEN wpD] frame_role_exists [THEN wpD]
    frame_os_project_main frame_os_user_main frame_os_role_main
  by (simp add: os_role_ensure_user_absent_def ensure_role_absent_def throw_def frame_defs)

theorem check_mode_unchanged_witness:
  "unchanged empty_backend (snd (ensure_project_exists ''demo'' None True True empty_backend))
   \<and> unchanged empty_backend (snd (ensure_user_exists ''demo'' None None None True True empty_backend))
   \<and> unchanged empty_backend (snd (ensure_role_exists ''demo'' ''demo'' ''admin'' True empty_backend))
   \<and> unchanged empty_backend (snd (os_project_main ''demo'' None Present True True empty_backend))"
  using check_mode_unchanged [where b = empty_backend and name = "''demo''" and description = None
          and enabled = True and password = None and email = None and proj = None
          and pname = "''demo''" and rname = "''admin''" and state = Present]
  by simp

section \<open>Routers\<close>

text \<open>
  C4, as the claim states it, fails: for the existing router \<^verbatim>\<open>router1\<close> with
  \<^verbatim>\<open>admin_state_up\<close> false and the desired value true, \<^verbatim>\<open>main\<close> reports
  \<^verbatim>\<open>changed=False\<close>, and the router keeps \<^verbatim>\<open>admin_state_up\<close> false.
\<close>

theorem router_divergent_counterexample:
  "fst (os_router_main ''router1'' True Present False (empty_backend\<lparr>bk_routers := [router1]\<rparr>))
     = Exit_json False (''Success'', Some ''7'')
   \<and> bk_routers (snd (os_router_main ''router1'' True Present False
        (empty_backend\<lparr>bk_routers := [router1]\<rparr>)))
     = [\<lparr>rt_id = ''7'', rt_name = ''router1'', rt_admin_state_up = False\<rparr>]"
  by (simp add: os_router_main_def os_router_try_def empty_backend_def router1_def bind_def invoke_def return_def
        cloud_defs lookup_def Let_def)

text \<open>
  C4, amended. When the lookup finds a router and the state is \<^verbatim>\<open>present\<close>,
  \<^verbatim>\<open>main\<close> of \<^verbatim>\<open>os_router.py\<close> reports \<^verbatim>\<open>changed=False\<close>, result
  \<^verbatim>\<open>Success\<close> and the router's id, whatever the desired \<^verbatim>\<open>admin_state_up\<close> is;
  it issues the session call and the lookup only, so the router is left as it is.
\<close>

theorem router_present_existing:
  "fault b Openstack_cloud = None \<Longrightarrow> fault b (Get_router name) = None \<Longrightarrow>
   lookup rt_id rt_name (bk_routers b) name = Inr (Some r) \<Longrightarrow>
   os_router_main name admin_state_up Present check_mode b
     = (Exit_json False (''Success'', Some (rt_id r)),
        b\<lparr>calls := calls b @ [Openstack_cloud, Get_router name]\<rparr>)"
  by (simp add: os_router_main_def os_router_try_def bind_def invoke_def return_def openstack_cloud_def
        cloud_get_router_def Let_def)

theorem router_present_existing_witness:
  "os_router_main ''router1'' True Present False (empty_backend\<lparr>bk_routers := [router1]\<rparr>)
   = (Exit_json False (''Success'', Some (rt_id router1)),
      empty_backend\<lparr>bk_routers := [router1],
        calls := calls (empty_backend\<lparr>bk_routers := [router1]\<rparr>)
                   @ [Openstack_cloud, Get_router ''router1'']\<rparr>)"
  using router_present_existing [of "empty_backend\<lparr>bk_routers := [router1]\<rparr>" "''router1''"
          router1 True False]
  by (simp add: empty_backend_def lookup_def router1_def)

section \<open>Lookup by name\<close>

text \<open>
  C3, as the claim states it, fails: when no user bears the name, \<^verbatim>\<open>get_user\<close> does
  not return \<^verbatim>\<open>None\<close>, it raises \<^verbatim>\<open>KeyError\<close>.
\<close>

theorem get_user_none_counterexample:
  "fst (get_user ''john'' empty_backend) = Inl (KeyError ''No keystone users with name john'')"
  by (simp add: get_user_def empty_backend_def bind_def invoke_def throw_def keystone_defs Let_def)

text \<open>
  C3, amended. \<^verbatim>\<open>get_user\<close> of \<^verbatim>\<open>os_role.py\<close> lists the users and keeps
  those of the name: it raises \<^verbatim>\<open>KeyError\<close> when there is none, returns the user
  when there is exactly one, and raises \<^verbatim>\<open>ValueError\<close> with the count when there are
  two or more. It does not change the backend.
\<close>

theorem lookup_by_name:
  "(fault b Users_list = None \<longrightarrow>
      (filter (\<lambda>x. u_name x = name) (bk_users b) = [] \<longrightarrow>
         fst (get_user name b) = Inl (KeyError (''No keystone users with name '' @ name)))
    \<and> (filter (\<lambda>x. u_name x = name) (bk_users b) = [u] \<longrightarrow> fst (get_user name b) = Inr u)
    \<and> (1 < length (filter (\<lambda>x. u_name x = name) (bk_users b)) \<longrightarrow>
         fst (get_user name b) = Inl (ValueError
            (str_nat (length (filter (\<lambda>x. u_name x = name) (bk_users b)))
               @ '' users with name '' @ name))))
   \<and> unchanged b (snd (get_user name b))"
  by (simp add: get_user_def bind_def invoke_def return_def throw_def
        keystone_defs Let_def frame_defs split: option.splits)

theorem lookup_by_name_witness:
  "fst (get_user ''john'' (empty_backend\<lparr>bk_users := [john]\<rparr>)) = Inr john
   \<and> fst (get_user ''john'' (empty_backend\<lparr>bk_users := [john, john]\<rparr>))
       = Inl (ValueError ''2 users with name john'')
   \<and> fst (get_user ''john'' empty_backend) = Inl (KeyError ''No keystone users with name john'')"
  using lookup_by_name [of "empty_backend\<lparr>bk_users := [john]\<rparr>" "''john''" john]
    lookup_by_name [of "empty_backend\<lparr>bk_users := [john, john]\<rparr>" "''john''" john]
    lookup_by_name [of empty_backend "''john''" john]
  by (simp add: empty_backend_def john_def str_nat_2)

section \<open>State absent\<close>

text \<open>
  \<^verbatim>\<open>ensure_user_absent\<close> of \<^verbatim>\<open>os_user.py\<close> issues \<^verbatim>\<open>delete_project\<close> on the
  user's id, and the user is still there afterwards; \<^verbatim>\<open>ensure_project_absent\<close> raises
  \<^verbatim>\<open>NameError\<close> before it reaches the backend.
\<close>

lemma ensure_user_absent_deletes_project:
  "issued (empty_backend\<lparr>bk_users := [john]\<rparr>)
     (snd (ensure_user_absent ''john'' False (empty_backend\<lparr>bk_users := [john]\<rparr>)))
   = [Get_user ''john'', Delete_project ''u1'']
   \<and> bk_users (snd (ensure_user_absent ''john'' False (empty_backend\<lparr>bk_users := [john]\<rparr>)))
       = [john]"
  by (simp add: ensure_user_absent_def empty_backend_def john_def bind_def invoke_def return_def
        cloud_defs lookup_def Let_def issued_def)

lemma ensure_project_absent_name_error:
  "ensure_project_absent name check_mode b = (Inl (NameError ''project_name''), b)"
  by (simp add: ensure_project_absent_def bind_def unbound_name_def throw_def)

text \<open>
  C8, as the claim states it, fails: for the existing router \<^verbatim>\<open>router1\<close>, whose id
  is \<^verbatim>\<open>7\<close>, \<^verbatim>\<open>main\<close> of \<^verbatim>\<open>os_router.py\<close> passes the name it was given to
  \<^verbatim>\<open>delete_router\<close>, not the id.
\<close>

theorem router_delete_by_name_counterexample:
  "rt_id router1 = ''7''
   \<and> os_router_main ''router1'' True Absent False (empty_backend\<lparr>bk_routers := [router1]\<rparr>)
      = (Exit_json True (''Deleted'', None),
         empty_backend\<lparr>bk_routers := [router1],
           calls := [Openstack_cloud, Get_router ''router1'', Delete_router ''router1'']\<rparr>)"
  by (simp add: os_router_main_def os_router_try_def empty_backend_def router1_def bind_def invoke_def return_def
        cloud_defs lookup_def Let_def)

text \<open>
  C8, amended. When the router exists and the state is \<^verbatim>\<open>absent\<close>, \<^verbatim>\<open>main\<close> of
  \<^verbatim>\<open>os_router.py\<close> issues \<^verbatim>\<open>delete_router\<close> on the name the caller supplied,
  after the lookup, and reports \<^verbatim>\<open>changed=True\<close> with result \<^verbatim>\<open>Deleted\<close> and no
  id. The absent paths of \<^verbatim>\<open>os_role.py\<close> (\<^verbatim>\<open>ensure_user_absent\<close>,
  \<^verbatim>\<open>ensure_role_absent\<close>) raise \<^verbatim>\<open>NotImplementedError\<close> and reach no backend
  call.
\<close>

theorem absent_paths:
  "(fault b Openstack_cloud = None \<and> fault b (Get_router name) = None
      \<and> fault b (Delete_router name) = None
      \<and> lookup rt_id rt_name (bk_routers b) name = Inr (Some r) \<longrightarrow>
      fst (os_router_main name admin_state_up Absent False b) = Exit_json True (''Deleted'', None)
      \<and> issued b (snd (os_router_main name admin_state_up Absent False b))
           = [Openstack_cloud, Get_router name, Delete_router name])
   \<and> os_role_ensure_user_absent user False b = (Inl (NotImplementedError ''Not yet implemented''), b)
   \<and> ensure_role_absent user proj role False b = (Inl (NotImplementedError ''Not yet implemented''), b)"
  by (simp add: os_router_main_def os_router_try_def bind_def invoke_def return_def throw_def openstack_cloud_def
        cloud_get_router_def cloud_delete_router_def Let_def issued_def
        os_role_ensure_user_absent_def ensure_role_absent_def)

theorem absent_paths_witness:
  "fst (os_router_main ''router1'' True Absent False (empty_backend\<lparr>bk_routers := [router1]\<rparr>))
     = Exit_json True (''Deleted'', None)
   \<and> issued (empty_backend\<lparr>bk_routers := [router1]\<rparr>)
        (snd (os_router_main ''router1'' True Absent False (empty_backend\<lparr>bk_routers := [router1]\<rparr>)))
     = [Openstack_cloud, Get_router ''router1'', Delete_router ''router1'']
   \<and> ensure_role_absent ''john'' ''demo'' ''admin'' False empty_backend
     = (Inl (NotImplementedError ''Not yet implemented''), empty_backend)"
  using absent_paths [where b = "empty_backend\<lparr>bk_routers := [router1]\<rparr>"
          and name = "''router1''" and r = router1 and admin_state_up = True
          and user = "''john''" and proj = "''demo''" and role = "''admin''"]
    absent_paths [where b = empty_backend and name = "''router1''" and r = router1
          and admin_state_up = True and user = "''john''" and proj = "''demo''"
          and role = "''admin''"]
  by (simp add: empty_backend_def router1_def lookup_def)

section \<open>Role assignments\<close>

text \<open>
  C9. In \<open>ambiguous_backend\<close> the one user \<^verbatim>\<open>john\<close> holds two roles named
  \<^verbatim>\<open>admin\<close> in the project \<^verbatim>\<open>demo\<close>. \<^verbatim>\<open>ensure_role_exists\<close> lists the
  users and then raises \<^verbatim>\<open>NameError\<close> at line 141, in check mode and outside it: the
  count of the roles and the \<^verbatim>\<open>ValueError\<close> of lines 142 to 152 are not reached.
\<close>

theorem role_ambiguity_name_error:
  "filter (\<lambda>x. u_name x = ''john'') (bk_users ambiguous_backend) = [john]
   \<and> filter (\<lambda>x. ro_name x = ''admin'') (held_roles ambiguous_backend john (Some demo1))
       = [admin1, admin2]
   \<and> ensure_role_exists ''john'' ''demo'' ''admin'' False ambiguous_backend
       = (Inl (NameError ''get_project''), ambiguous_backend\<lparr>calls := [Users_list]\<rparr>)
   \<and> ensure_role_exists ''john'' ''demo'' ''admin'' True ambiguous_backend
       = (Inl (NameError ''get_project''), ambiguous_backend\<lparr>calls := [Users_list]\<rparr>)"
  by (simp add: ensure_role_exists_def get_user_def ambiguous_backend_def empty_backend_def
        john_def demo1_def admin1_def admin2_def held_roles_def bind_def invoke_def return_def
        throw_def unbound_name_def keystone_defs Let_def)

section \<open>Order and number of the calls\<close>

lemmas order_defs = one_mutation_def issued_def

lemma order_project_exists:
  "wp (ensure_project_exists name description enabled check_mode) (\<lambda>r b'. one_mutation (issued b b')) b"
  by (simp add: ensure_project_exists_def wp_rules cloud_defs order_defs Let_def
        split: option.splits sum.splits list.splits)

lemma order_project_absent:
  "wp (ensure_project_absent name check_mode) (\<lambda>r b'. one_mutation (issued b b')) b"
  by (simp add: ensure_project_absent_def wp_rules cloud_defs order_defs
        split: option.splits sum.splits)

lemma order_user_exists:
  "wp (ensure_user_exists name password email proj enabled check_mode) (\<lambda>r b'. one_mutation (issued b b')) b"
  by (simp add: ensure_user_exists_def wp_rules cloud_defs order_defs Let_def
        split: option.splits sum.splits list.splits)

lemma order_user_absent:
  "wp (ensure_user_absent name check_mode) (\<lambda>r b'. one_mutation (issued b b')) b"
  by (simp add: ensure_user_absent_def wp_rules cloud_defs order_defs
        split: option.splits sum.splits)

lemma order_os_role_user_exists:
  "wp (os_role_ensure_user_exists name password email pname check_mode) (\<lambda>r b'. one_mutation (issued b b')) b"
  by (simp add: os_role_ensure_user_exists_def get_user_def wp_rules
        keystone_defs order_defs Let_def split: option.splits sum.splits exn.splits)

lemma order_role_exists:
  "wp (ensure_role_exists name pname rname check_mode) (\<lambda>r b'. one_mutation (issued b b')) b"
  by (simp add: ensure_role_exists_def get_user_def wp_rules
        keystone_defs order_defs Let_def split: option.splits sum.splits exn.splits)

lemma order_router_try:
  "wp (os_router_try name admin_state_up state) (\<lambda>r b'. one_mutation (issued b b')) b"
  by (simp add: os_router_try_def wp_rules cloud_defs order_defs Let_def
        split: option.splits sum.splits lifecycle.splits)

lemma snd_os_router_main:
  "snd (os_router_main name admin_state_up state check_mode b) = snd (os_router_try name admin_state_up state b)"
  by (simp add: os_router_main_def split: prod.splits sum.splits exn.splits)


text \<open>
  C6. In every run, for every input, every backend and every pattern of failures, no
  mutating call is issued before a lookup and at most one mutating call is issued: by
  the convergence functions for projects and users, by \<^verbatim>\<open>main\<close> of
  \<^verbatim>\<open>os_router.py\<close>, and by \<^verbatim>\<open>ensure_user_exists\<close> and
  \<^verbatim>\<open>ensure_role_exists\<close> of \<^verbatim>\<open>os_role.py\<close>.
\<close>

theorem lookup_then_mutation:
  "one_mutation (issued b (snd (ensure_project_exists name description enabled check_mode b)))
   \<and> one_mutation (issued b (snd (ensure_project_absent name check_mode b)))
   \<and> one_mutation (issued b (snd (ensure_user_exists name password email proj enabled check_mode b)))
   \<and> one_mutation (issued b (snd (ensure_user_absent name check_mode b)))
   \<and> one_mutation (issued b (snd (os_router_main name admin_state_up state check_mode b)))
   \<and> one_mutation (issued b (snd (os_role_ensure_user_exists name password email pname check_mode b)))
   \<and> one_mutation (issued b (snd (ensure_role_exists name pname rname check_mode b)))"
  using order_project_exists [THEN wpD] order_project_absent [THEN wpD]
    order_user_exists [THEN wpD] order_user_absent [THEN wpD]
    order_os_role_user_exists [THEN wpD] order_role_exists [THEN wpD]
    order_router_try [THEN wpD]
  by (simp add: snd_os_router_main)

theorem lookup_then_mutation_witness:
  "one_mutation (issued empty_backend
      (snd (ensure_project_exists ''demo'' None True False empty_backend)))
   \<and> one_mutation (issued empty_backend
      (snd (os_router_main ''demo'' True Present False empty_backend)))
   \<and> one_mutation (issued role_backend
      (snd (ensure_role_exists ''john'' ''demo'' ''admin'' False role_backend)))"
  using lookup_then_mutation [where b = empty_backend and name = "''demo''"
          and description = None and enabled = True and check_mode = False and password = None
          and email = None and proj = None and admin_state_up = True and state = Present
          and pname = "''demo''" and rname = "''admin''"]
    lookup_then_mutation [where b = role_backend and name = "''john''"
          and description = None and enabled = True and check_mode = False and password = None
          and email = None and proj = None and admin_state_up = True and state = Present
          and pname = "''demo''" and rname = "''admin''"]
  by simp

section \<open>Backend failures\<close>

lemma fst_except_cloud_exception:
  "fst (except_cloud_exception cm body b) =
     (case fst (body b) of
        Inr out \<Rightarrow> out
      | Inl (OpenStackCloudException m x) \<Rightarrow> if cm then Exit_json_msg True m x else Fail_json m (Some x)
      | Inl e \<Rightarrow> Uncaught e)"
  by (simp add: except_cloud_exception_def split: prod.splits sum.splits exn.splits)

lemma faulted_project_try:
  "wp (os_project_try proj description state enabled check_mode)
     (\<lambda>r b'. reported b b' = Some (m, x) \<longrightarrow> r = Inl (OpenStackCloudException m x)) b"
  by (simp add: os_project_try_def ensure_project_exists_def ensure_project_absent_def wp_rules
        cloud_defs reported_def issued_def Let_def
        split: option.splits sum.splits list.splits lifecycle.splits)

lemma faulted_user_try:
  "wp (os_user_try name password proj email state enabled check_mode)
     (\<lambda>r b'. reported b b' = Some (m, x) \<longrightarrow> r = Inl (OpenStackCloudException m x)) b"
  by (simp add: os_user_try_def ensure_user_absent_def wp_rules
        cloud_defs reported_def issued_def Let_def
        split: option.splits sum.splits list.splits lifecycle.splits)

lemma faulted_role_try:
  "wp os_role_try
     (\<lambda>r b'. reported b b' = Some (m, x) \<longrightarrow> r = Inl (OpenStackCloudException m x)) b"
  by (simp add: os_role_try_def wp_rules cloud_defs reported_def issued_def
        split: option.splits)

lemma faulted_router_try:
  "wp (os_router_try name admin_state_up state)
     (\<lambda>r b'. reported b b' = Some (m, x) \<longrightarrow> r = Inl (OpenStackCloudException m x)) b"
  by (simp add: os_router_try_def wp_rules cloud_defs reported_def issued_def Let_def
        split: option.splits sum.splits list.splits lifecycle.splits)


lemma fst_os_router_main:
  "fst (os_router_main name admin_state_up state check_mode b) =
     (case fst (os_router_try name admin_state_up state b) of
        Inr out \<Rightarrow> out
      | Inl (OpenStackCloudException m x) \<Rightarrow> Fail_json m None
      | Inl e \<Rightarrow> Uncaught e)"
  by (simp add: os_router_main_def split: prod.splits sum.splits exn.splits)

text \<open>
  C7, as the claim states it, fails for the router: in check mode, against a backend
  that fails, \<^verbatim>\<open>main\<close> of \<^verbatim>\<open>os_router.py\<close> calls \<^verbatim>\<open>fail_json\<close>.
\<close>

theorem router_check_mode_failure_counterexample:
  "fst (os_router_main ''router1'' True Present True (empty_backend\<lparr>fault := down\<rparr>))
     = Fail_json ''Service Unavailable'' None"
  by (simp add: os_router_main_def os_router_try_def empty_backend_def down_def bind_def
        invoke_def openstack_cloud_def)

text \<open>
  C7, amended. When the backend fails a call of the run, \<^verbatim>\<open>main\<close> of
  \<^verbatim>\<open>os_project.py\<close>, \<^verbatim>\<open>os_user.py\<close> and \<^verbatim>\<open>os_role.py\<close> reports
  \<^verbatim>\<open>changed=True\<close> with the backend's message and extra data in check mode, and calls
  \<^verbatim>\<open>fail_json\<close> with them otherwise; \<^verbatim>\<open>main\<close> of \<^verbatim>\<open>os_router.py\<close> calls
  \<^verbatim>\<open>fail_json\<close> with the message in both modes.
\<close>

theorem cloud_failure_report:
  "(reported b (snd (os_project_main proj description state enabled check_mode b)) = Some (m, x) \<longrightarrow>
      fst (os_project_main proj description state enabled check_mode b)
        = (if check_mode then Exit_json_msg True m x else Fail_json m (Some x)))
   \<and> (reported b (snd (os_user_main name password uproj email state enabled check_mode b)) = Some (m, x) \<longrightarrow>
      fst (os_user_main name password uproj email state enabled check_mode b)
        = (if check_mode then Exit_json_msg True m x else Fail_json m (Some x)))
   \<and> (reported b (snd (os_role_main check_mode b)) = Some (m, x) \<longrightarrow>
      fst (os_role_main check_mode b)
        = (if check_mode then Exit_json_msg True m x else Fail_json m (Some x)))
   \<and> (reported b (snd (os_router_main name admin_state_up state check_mode b)) = Some (m, x) \<longrightarrow>
      fst (os_router_main name admin_state_up state check_mode b) = Fail_json m None)"
  using faulted_project_try [THEN wpD, of b proj description state enabled check_mode m x]
    faulted_user_try [THEN wpD, of b name password uproj email state enabled check_mode m x]
    faulted_role_try [THEN wpD, of b m x]
    faulted_router_try [THEN wpD, of b name admin_state_up state m x]
  by (simp add: os_project_main_def os_user_main_def os_role_main_def
        snd_except_cloud_exception fst_except_cloud_exception snd_os_router_main
        fst_os_router_main)

theorem cloud_failure_report_witness:
  "reported (empty_backend\<lparr>fault := flaky\<rparr>)
      (snd (os_project_main ''demo'' None Present True True (empty_backend\<lparr>fault := flaky\<rparr>)))
     = Some (''Service Unavailable'', ''503'')
   \<and> fst (os_project_main ''demo'' None Present True True (empty_backend\<lparr>fault := flaky\<rparr>))
     = Exit_json_msg True ''Service Unavailable'' ''503''
   \<and> fst (os_project_main ''demo'' None Present True False (empty_backend\<lparr>fault := flaky\<rparr>))
     = Fail_json ''Service Unavailable'' (Some ''503'')
   \<and> fst (os_user_main ''john'' None None None Absent True True (empty_backend\<lparr>fault := down\<rparr>))
     = Exit_json_msg True ''Service Unavailable'' ''503''
   \<and> fst (os_role_main True (empty_backend\<lparr>fault := down\<rparr>))
     = Exit_json_msg True ''Service Unavailable'' ''503''
   \<and> fst (os_router_main ''router1'' True Present True (empty_backend\<lparr>fault := down\<rparr>))
     = Fail_json ''Service Unavailable'' None"
proof -
  have r1: "reported (empty_backend\<lparr>fault := flaky\<rparr>)
      (snd (os_project_main ''demo'' None Present True cm (empty_backend\<lparr>fault := flaky\<rparr>)))
     = Some (''Service Unavailable'', ''503'')" for cm
    by (simp add: os_project_main_def snd_except_cloud_exception os_project_try_def
          ensure_project_exists_def cloud_defs bind_def invoke_def return_def reported_def
          issued_def empty_backend_def flaky_def)
  have r2: "reported (empty_backend\<lparr>fault := down\<rparr>)
      (snd (os_user_main ''john'' None None None Absent True True (empty_backend\<lparr>fault := down\<rparr>)))
     = Some (''Service Unavailable'', ''503'')"
    by (simp add: os_user_main_def snd_except_cloud_exception os_user_try_def
          cloud_defs bind_def invoke_def return_def reported_def
          issued_def empty_backend_def down_def)
  have r3: "reported (empty_backend\<lparr>fault := down\<rparr>) (snd (os_role_main True (empty_backend\<lparr>fault := down\<rparr>)))
     = Some (''Service Unavailable'', ''503'')"
    by (simp add: os_role_main_def snd_except_cloud_exception os_role_try_def
          cloud_defs bind_def invoke_def return_def reported_def
          issued_def empty_backend_def down_def)
  have r4: "reported (empty_backend\<lparr>fault := down\<rparr>)
      (snd (os_router_main ''router1'' True Present True (empty_backend\<lparr>fault := down\<rparr>)))
     = Some (''Service Unavailable'', ''503'')"
    by (simp add: snd_os_router_main os_router_try_def
          cloud_defs bind_def invoke_def return_def reported_def
          issued_def empty_backend_def down_def)
  show ?thesis
    using r1 r2 r3 r4
      cloud_failure_report [where b = "empty_backend\<lparr>fault := flaky\<rparr>" and proj = "''demo''"
        and description = None and state = Present and enabled = True and check_mode = True
        and m = "''Service Unavailable''" and x = "''503''" and name = "''john''"
        and password = None and uproj = None and email = None
        and admin_state_up = True]
      cloud_failure_report [where b = "empty_backend\<lparr>fault := flaky\<rparr>" and proj = "''demo''"
        and description = None and state = Present and enabled = True and check_mode = False
        and m = "''Service Unavailable''" and x = "''503''" and name = "''john''"
        and password = None and uproj = None and email = None
        and admin_state_up = True]
      cloud_failure_report [where b = "empty_backend\<lparr>fault := down\<rparr>" and proj = "''demo''"
        and description = None and state = Absent and enabled = True and check_mode = True
        and m = "''Service Unavailable''" and x = "''503''" and name = "''john''"
        and password = None and uproj = None and email = None
        and admin_state_up = True]
      cloud_failure_report [where b = "empty_backend\<lparr>fault := down\<rparr>" and proj = "''demo''"
        and description = None and state = Present and enabled = True and check_mode = True
        and m = "''Service Unavailable''" and x = "''503''" and name = "''router1''"
        and password = None and uproj = None and email = None
        and admin_state_up = True]
    by simp
qed


section \<open>Converging twice\<close>








end
